theory Spec2Isabelle
  imports Main "HOL-Library.Word"
begin

section \<open>The pool allocator of memory_manager.c\<close>

subsection \<open>Data model\<close>

text \<open>
  Pointers are addresses, modelled as natural numbers; the null pointer is address 0.
  The sizes are \<open>size_t\<close> values.  The source computes with them in three places only:
  \<open>current->ptr + size\<close> and \<open>current->size - size\<close> behind the guard
  \<open>current->size >= size\<close>, and \<open>current->size += next->size\<close>.  The guarded
  subtraction cannot wrap, and the two sums stay below the end of the pool buffer in every
  state built from \<open>mem_init\<close>, so the sizes are modelled as \<open>nat\<close>.
\<close>

abbreviation NULL :: nat where
  "NULL \<equiv> 0"

text \<open>
  \<open>struct memory_block\<close>.  The field \<open>next\<close> is the position in the chain: the
  chain that starts at \<open>first_block\<close> is the list of its descriptors in \<open>next\<close> order.
  Every descriptor comes from its own \<open>malloc\<close> in \<open>make_block\<close> and is linked in
  exactly once, so the chain never shares or repeats a cell.
\<close>

record memory_block =
  ptr :: nat
  size_b :: nat
  free :: int

text \<open>
  The globals \<open>memory_pool\<close> and \<open>first_block\<close>, and the contents of memory by
  address (what \<open>memcpy\<close> in \<open>mem_resize\<close> reads and writes).
\<close>

record pool =
  memory_pool :: nat
  first_block :: "memory_block list"
  bytes :: "nat \<Rightarrow> 8 word"

text \<open>A dereference of the null pointer ends the program.\<close>

datatype fault = NullDereference

subsection \<open>Operations\<close>

text \<open>
  \<open>make_block(ptr, size, free, next)\<close>: the new cell; \<open>next\<close> is where it is put.
  The \<open>malloc\<close> of the cell is taken to succeed.
\<close>

definition make_block :: "nat \<Rightarrow> nat \<Rightarrow> int \<Rightarrow> memory_block" where
  "make_block p sz f = \<lparr>ptr = p, size_b = sz, free = f\<rparr>"

text \<open>
  \<open>mem_init(size)\<close>.  The address \<open>base\<close> is what \<open>malloc(size)\<close> returned and
  \<open>m\<close> is the memory at that moment.
\<close>

definition mem_init :: "nat \<Rightarrow> (nat \<Rightarrow> 8 word) \<Rightarrow> nat \<Rightarrow> pool" where
  "mem_init base m sz =
     \<lparr>memory_pool = base, first_block = [make_block base sz 1], bytes = m\<rparr>"

text \<open>
  The loop of \<open>no_lock_alloc\<close> over the chain: the pointer returned and the chain after
  the call.  The test \<open>current->free\<close> is C truth: any value but 0.
\<close>

fun alloc_chain :: "memory_block list \<Rightarrow> nat \<Rightarrow> nat \<times> memory_block list" where
  "alloc_chain [] sz = (NULL, [])"
| "alloc_chain (current # rest) sz =
     (if free current \<noteq> 0 \<and> size_b current \<ge> sz then
        (ptr current,
         current\<lparr>free := 0, size_b := sz\<rparr>
           # make_block (ptr current + sz) (size_b current - sz) 1 # rest)
      else (fst (alloc_chain rest sz), current # snd (alloc_chain rest sz)))"

definition no_lock_alloc :: "pool \<Rightarrow> nat \<Rightarrow> nat \<times> pool" where
  "no_lock_alloc s sz =
     (fst (alloc_chain (first_block s) sz),
      s\<lparr>first_block := snd (alloc_chain (first_block s) sz)\<rparr>)"

text \<open>\<open>mem_alloc\<close> is \<open>no_lock_alloc\<close> between lock and unlock.\<close>

definition mem_alloc :: "pool \<Rightarrow> nat \<Rightarrow> nat \<times> pool" where
  "mem_alloc s sz = no_lock_alloc s sz"

text \<open>The loop of \<open>no_lock_free\<close>; the merge tests \<open>current->next->free == 1\<close>.\<close>

fun free_chain :: "memory_block list \<Rightarrow> nat \<Rightarrow> memory_block list" where
  "free_chain [] block = []"
| "free_chain (current # rest) block =
     (if ptr current = block then
        (case rest of
           [] \<Rightarrow> [current\<lparr>free := 1\<rparr>]
         | nxt # rest' \<Rightarrow>
             if free nxt = 1
             then current\<lparr>free := 1, size_b := size_b current + size_b nxt\<rparr> # rest'
             else current\<lparr>free := 1\<rparr> # nxt # rest')
      else current # free_chain rest block)"

definition no_lock_free :: "pool \<Rightarrow> nat \<Rightarrow> pool" where
  "no_lock_free s block = s\<lparr>first_block := free_chain (first_block s) block\<rparr>"

text \<open>\<open>mem_free\<close> returns \<open>void\<close>: all a caller gets is the state after the call.\<close>

definition mem_free :: "pool \<Rightarrow> nat \<Rightarrow> pool" where
  "mem_free s block = no_lock_free s block"

text \<open>
  The search loop at the start of \<open>mem_resize\<close>; \<open>None\<close> is the exit with
  \<open>current_block == NULL\<close>.
\<close>

fun find_block :: "memory_block list \<Rightarrow> nat \<Rightarrow> memory_block option" where
  "find_block [] block = None"
| "find_block (current # rest) block =
     (if ptr current = block then Some current else find_block rest block)"

text \<open>\<open>memcpy(dst, src, n)\<close> on the memory.\<close>

definition memcpy :: "(nat \<Rightarrow> 8 word) \<Rightarrow> nat \<Rightarrow> nat \<Rightarrow> nat \<Rightarrow> (nat \<Rightarrow> 8 word)" where
  "memcpy m dst src n = (\<lambda>a. if dst \<le> a \<and> a < dst + n then m (src + (a - dst)) else m a)"

text \<open>
  \<open>mem_resize\<close>.  After the search loop the source reads \<open>current_block->size\<close> with
  no test, which is a null dereference when the loop found nothing.  The size passed to
  \<open>memcpy\<close> is read after \<open>no_lock_alloc\<close>; on this path the descriptor found is
  smaller than the request, so the allocation, which only rewrites a descriptor at least
  as large as the request, has left it as it was.
\<close>

definition mem_resize :: "pool \<Rightarrow> nat \<Rightarrow> nat \<Rightarrow> fault + (nat \<times> pool)" where
  "mem_resize s block sz =
     (case find_block (first_block s) block of
        None \<Rightarrow> Inl NullDereference
      | Some current_block \<Rightarrow>
          if size_b current_block \<ge> sz then Inr (block, s)
          else
            let (new_ptr, s') = no_lock_alloc s sz in
            if new_ptr \<noteq> NULL then
              Inr (new_ptr,
                   no_lock_free
                     (s'\<lparr>bytes := memcpy (bytes s') new_ptr block (size_b current_block)\<rparr>)
                     block)
            else Inr (new_ptr, s'))"

text \<open>A descriptor that the scan of \<open>no_lock_alloc\<close> accepts for a request.\<close>

definition fits :: "nat \<Rightarrow> memory_block \<Rightarrow> bool" where
  "fits sz b \<longleftrightarrow> free b \<noteq> 0 \<and> size_b b \<ge> sz"

subsection \<open>Call sequences and the shape of the chain\<close>

text \<open>A call of \<open>mem_alloc\<close> (its result dropped) or of \<open>mem_free\<close>.\<close>

datatype call = Alloc nat | Free nat

fun apply_call :: "pool \<Rightarrow> call \<Rightarrow> pool" where
  "apply_call s (Alloc sz) = snd (mem_alloc s sz)"
| "apply_call s (Free block) = mem_free s block"

definition run :: "pool \<Rightarrow> call list \<Rightarrow> pool" where
  "run s cs = foldl apply_call s cs"

definition total_size :: "memory_block list \<Rightarrow> nat" where
  "total_size bs = sum_list (map size_b bs)"

text \<open>Each descriptor starts at the byte where the one before it ends, the first at \<open>a\<close>.\<close>

fun contiguous :: "nat \<Rightarrow> memory_block list \<Rightarrow> bool" where
  "contiguous a [] = True"
| "contiguous a (b # bs) = (ptr b = a \<and> contiguous (a + size_b b) bs)"

text \<open>The byte range of a descriptor ends before every later descriptor starts.\<close>

fun non_overlapping :: "memory_block list \<Rightarrow> bool" where
  "non_overlapping [] = True"
| "non_overlapping (b # bs) =
     ((\<forall>x \<in> set bs. ptr b + size_b b \<le> ptr x) \<and> non_overlapping bs)"

text \<open>The descriptors that cover at least one byte.\<close>

definition nonempty_blocks :: "memory_block list \<Rightarrow> memory_block list" where
  "nonempty_blocks bs = filter (\<lambda>b. 0 < size_b b) bs"

text \<open>The chain partitions the \<open>sz\<close> bytes from \<open>base\<close> on.\<close>

definition chain_ok :: "nat \<Rightarrow> nat \<Rightarrow> memory_block list \<Rightarrow> bool" where
  "chain_ok base sz bs \<longleftrightarrow> contiguous base bs \<and> total_size bs = sz"

text \<open>
  What the merge of \<open>no_lock_free\<close> takes from the rest of the chain \<open>post\<close> behind
  the descriptor released: the size of the next descriptor when its flag is 1, and the
  chain that stays behind.
\<close>

definition succ_free_size :: "memory_block list \<Rightarrow> nat" where
  "succ_free_size post =
     (case post of [] \<Rightarrow> 0 | nxt # _ \<Rightarrow> if free nxt = 1 then size_b nxt else 0)"

definition after_merge :: "memory_block list \<Rightarrow> memory_block list" where
  "after_merge post =
     (case post of [] \<Rightarrow> [] | nxt # rest \<Rightarrow> if free nxt = 1 then rest else nxt # rest)"

text \<open>
  The state at program start: both globals are \<open>NULL\<close>.  The contents of memory at
  that moment play no part below and are taken as zero.
\<close>

definition startup :: pool where
  "startup = \<lparr>memory_pool = NULL, first_block = [], bytes = (\<lambda>_. 0)\<rparr>"

section \<open>The list of linked_list.c\<close>

text \<open>
  Modelled from the spec: the type \<open>Node\<close> of linked_list.h, which is not among the
  sources.  A node has a 16-bit unsigned payload and a reference to the next node; the
  code names them \<open>data\<close> (a \<open>uint16_t\<close>) and \<open>next\<close>.  The nodes live in pool
  memory; the model keeps a typed view of it, the node read at each address.
\<close>

record Node =
  data :: "16 word"
  "next" :: nat

text \<open>
  The caller's variable \<open>*head\<close>, the allocator below the list, the nodes by address,
  and what has been printed to standard output.
\<close>

record lstate =
  pool_state :: pool
  head :: nat
  nodes :: "nat \<Rightarrow> Node"
  console :: string

definition list_startup :: lstate where
  "list_startup =
     \<lparr>pool_state = startup, head = NULL,
      nodes = (\<lambda>_. \<lparr>data = 0, next = NULL\<rparr>), console = []\<rparr>"

text \<open>\<open>list_init(head, size)\<close>; \<open>base\<close> is the address \<open>malloc\<close> gave the pool.\<close>

definition list_init :: "lstate \<Rightarrow> nat \<Rightarrow> nat \<Rightarrow> lstate" where
  "list_init s base sz =
     s\<lparr>pool_state := mem_init base (bytes (pool_state s)) sz, head := NULL\<rparr>"

text \<open>
  The walk \<open>while (current->next != NULL) current = current->next\<close> of
  \<open>list_insert\<close>.  On a cyclic chain it does not end: the result is \<open>None\<close>.
\<close>

partial_function (option) last_node :: "(nat \<Rightarrow> Node) \<Rightarrow> nat \<Rightarrow> nat option" where
  "last_node h current =
     (if next (h current) \<noteq> NULL then last_node h (next (h current)) else Some current)"

text \<open>
  \<open>list_insert(head, data)\<close>; \<open>node_size\<close> is \<open>sizeof(Node)\<close>.  The result of
  \<open>mem_alloc\<close> is written through with no test: \<open>node->data = data\<close> on a null
  \<open>node\<close> is the fault.
\<close>

definition list_insert :: "nat \<Rightarrow> lstate \<Rightarrow> 16 word \<Rightarrow> (fault + lstate) option" where
  "list_insert node_size s d =
     (let (node, p) = mem_alloc (pool_state s) node_size in
      if node = NULL then Some (Inl NullDereference)
      else
        let h = (nodes s)(node := \<lparr>data = d, next = NULL\<rparr>) in
        if head s = NULL then Some (Inr (s\<lparr>pool_state := p, nodes := h, head := node\<rparr>))
        else
          (case last_node h (head s) of
             None \<Rightarrow> None
           | Some current \<Rightarrow>
               Some (Inr (s\<lparr>pool_state := p,
                            nodes := h(current := (h current)\<lparr>next := node\<rparr>)\<rparr>))))"

text \<open>A run of \<open>list_insert\<close> calls that stops at the first fault.\<close>

fun insert_all :: "nat \<Rightarrow> lstate \<Rightarrow> 16 word list \<Rightarrow> (fault + lstate) option" where
  "insert_all node_size s [] = Some (Inr s)"
| "insert_all node_size s (d # ds) =
     (case list_insert node_size s d of
        Some (Inr s') \<Rightarrow> insert_all node_size s' ds
      | r \<Rightarrow> r)"

text \<open>
  The loop of \<open>list_search\<close>: the node returned from inside the loop, or \<open>NULL\<close> when
  the loop runs off the end.  \<open>None\<close> is a walk that does not end.
\<close>

partial_function (option) search_loop :: "(nat \<Rightarrow> Node) \<Rightarrow> nat \<Rightarrow> 16 word \<Rightarrow> nat option" where
  "search_loop h current d =
     (if current \<noteq> NULL then
        (if data (h current) = d then Some current else search_loop h (next (h current)) d)
      else Some NULL)"

text \<open>
  \<open>list_search(head, data)\<close>.  A node returned from inside the loop is never null, so
  a null result is the path through \<open>printf("data not in list")\<close>.
\<close>

definition list_search :: "lstate \<Rightarrow> 16 word \<Rightarrow> (nat \<times> lstate) option" where
  "list_search s d =
     (case search_loop (nodes s) (head s) d of
        None \<Rightarrow> None
      | Some r \<Rightarrow>
          if r = NULL then Some (NULL, s\<lparr>console := console s @ ''data not in list''\<rparr>)
          else Some (r, s))"

text \<open>
  The nodes from \<open>p\<close> to the end are at the addresses \<open>as\<close>, in order: a chain that
  ends in \<open>NULL\<close>.
\<close>

fun node_chain :: "(nat \<Rightarrow> Node) \<Rightarrow> nat \<Rightarrow> nat list \<Rightarrow> bool" where
  "node_chain h p [] = (p = NULL)"
| "node_chain h p (a # as) = (p = a \<and> a \<noteq> NULL \<and> node_chain h (next (h a)) as)"

section \<open>Lemmas on the chain and the list\<close>

declare last_node.simps [code]
declare search_loop.simps [code]

lemmas run_simps = run_def mem_init_def mem_alloc_def mem_free_def no_lock_alloc_def
  no_lock_free_def make_block_def

subsection \<open>The scan of the allocator\<close>

lemma alloc_chain_first_fit:
  "\<forall>x \<in> set pre. \<not> fits sz x \<Longrightarrow> fits sz b \<Longrightarrow>
   alloc_chain (pre @ b # post) sz =
     (ptr b, pre @ b\<lparr>free := 0, size_b := sz\<rparr>
                 # make_block (ptr b + sz) (size_b b - sz) 1 # post)"
  by (induction pre) (auto simp: fits_def)

lemma alloc_chain_no_fit:
  "\<forall>x \<in> set bs. \<not> fits sz x \<Longrightarrow> alloc_chain bs sz = (NULL, bs)"
  by (induction bs) (auto simp: fits_def)

lemma first_fit_split:
  "\<exists>x \<in> set bs. fits sz x \<Longrightarrow>
   \<exists>pre b post. bs = pre @ b # post \<and> (\<forall>x \<in> set pre. \<not> fits sz x) \<and> fits sz b"
  using split_list_first_prop [of bs "fits sz"] by blast

subsection \<open>What allocation and release preserve\<close>

lemma contiguous_alloc_chain:
  "contiguous a bs \<Longrightarrow> contiguous a (snd (alloc_chain bs sz))"
  by (induction bs arbitrary: a) (auto simp: make_block_def)

lemma total_size_alloc_chain:
  "total_size (snd (alloc_chain bs sz)) = total_size bs"
  by (induction bs) (auto simp: make_block_def total_size_def)

lemma contiguous_free_chain:
  "contiguous a bs \<Longrightarrow> contiguous a (free_chain bs block)"
  by (induction bs arbitrary: a) (auto simp: add.assoc split: list.splits)

lemma total_size_free_chain:
  "total_size (free_chain bs block) = total_size bs"
  by (induction bs) (auto simp: total_size_def split: list.splits)

lemma contiguous_ptr_ge:
  "contiguous a bs \<Longrightarrow> x \<in> set bs \<Longrightarrow> a \<le> ptr x"
  by (induction bs arbitrary: a) fastforce+

lemma contiguous_non_overlapping:
  "contiguous a bs \<Longrightarrow> non_overlapping bs"
  by (induction bs arbitrary: a) (auto dest: contiguous_ptr_ge)

lemma non_overlapping_distinct:
  "non_overlapping bs \<Longrightarrow> distinct (map ptr (nonempty_blocks bs))"
  by (induction bs) (auto simp: nonempty_blocks_def)

lemma chain_ok_apply_call:
  "chain_ok base sz (first_block s) \<Longrightarrow> chain_ok base sz (first_block (apply_call s c))"
  by (cases c)
     (simp_all add: chain_ok_def mem_alloc_def no_lock_alloc_def mem_free_def no_lock_free_def
        contiguous_alloc_chain total_size_alloc_chain contiguous_free_chain total_size_free_chain)

lemma chain_ok_run:
  "chain_ok base sz (first_block s) \<Longrightarrow> chain_ok base sz (first_block (run s cs))"
  unfolding run_def by (induction cs arbitrary: s) (simp_all add: chain_ok_apply_call)

lemma chain_ok_mem_init: "chain_ok base sz (first_block (mem_init base m sz))"
  by (simp add: chain_ok_def mem_init_def make_block_def total_size_def)

text \<open>
  No descriptor of a pool built by \<open>mem_init\<close> reaches past the end of the buffer: the
  sums the source computes on \<open>size_t\<close> and on pointers stay inside it.
\<close>

lemma contiguous_end_le:
  "contiguous a bs \<Longrightarrow> x \<in> set bs \<Longrightarrow> ptr x + size_b x \<le> a + total_size bs"
  by (induction bs arbitrary: a) (fastforce simp: total_size_def)+

lemma run_within_buffer:
  assumes "x \<in> set (first_block (run (mem_init base m sz) cs))"
  shows "base \<le> ptr x \<and> ptr x + size_b x \<le> base + sz"
proof -
  have "chain_ok base sz (first_block (run (mem_init base m sz) cs))"
    by (rule chain_ok_run [OF chain_ok_mem_init])
  with assms contiguous_ptr_ge contiguous_end_le show ?thesis
    unfolding chain_ok_def by metis
qed

text \<open>
  In a pool that \<open>mem_init\<close> put at a non-null address, \<open>mem_alloc\<close> returns
  \<open>NULL\<close> exactly when no descriptor is free and large enough.
\<close>

lemma run_alloc_null_iff:
  assumes "base \<noteq> NULL" and "s = run (mem_init base m sz) cs"
  shows "fst (mem_alloc s n) = NULL \<longleftrightarrow> (\<forall>x \<in> set (first_block s). \<not> fits n x)"
proof
  assume null: "fst (mem_alloc s n) = NULL"
  show "\<forall>x \<in> set (first_block s). \<not> fits n x"
  proof (rule ccontr)
    assume "\<not> (\<forall>x \<in> set (first_block s). \<not> fits n x)"
    then obtain pre b post where
      split: "first_block s = pre @ b # post" "\<forall>x \<in> set pre. \<not> fits n x" "fits n b"
      using first_fit_split [of "first_block s" n] by blast
    then have "fst (mem_alloc s n) = ptr b"
      by (simp add: mem_alloc_def no_lock_alloc_def alloc_chain_first_fit)
    moreover have "base \<le> ptr b"
      using run_within_buffer [of b base m sz cs] split(1) assms(2) by simp
    ultimately show False using null assms(1) by simp
  qed
next
  assume "\<forall>x \<in> set (first_block s). \<not> fits n x"
  then show "fst (mem_alloc s n) = NULL"
    by (simp add: mem_alloc_def no_lock_alloc_def alloc_chain_no_fit)
qed

subsection \<open>Looking a block up by its address\<close>

lemma free_chain_absent:
  "block \<notin> ptr ` set bs \<Longrightarrow> free_chain bs block = bs"
  by (induction bs) auto

lemma find_block_absent:
  "block \<notin> ptr ` set bs \<Longrightarrow> find_block bs block = None"
  by (induction bs) auto

lemma find_block_first:
  "\<forall>x \<in> set pre. ptr x \<noteq> ptr b \<Longrightarrow> find_block (pre @ b # post) (ptr b) = Some b"
  by (induction pre) auto

lemma free_chain_hit:
  "\<forall>x \<in> set pre. ptr x \<noteq> block \<Longrightarrow> ptr b = block \<Longrightarrow>
   free_chain (pre @ b # post) block =
     pre @ b\<lparr>free := 1, size_b := size_b b + succ_free_size post\<rparr> # after_merge post"
  by (induction pre) (auto simp: succ_free_size_def after_merge_def split: list.splits)

lemma alloc_chain_result_in_prefix:
  assumes "fits sz b"
  shows "fst (alloc_chain (pre @ b # post) sz) \<in> ptr ` set (pre @ [b])"
proof (cases "\<forall>x \<in> set pre. \<not> fits sz x")
  case True
  with assms show ?thesis by (simp add: alloc_chain_first_fit)
next
  case False
  then obtain p1 x p2 where
    split: "pre = p1 @ x # p2" "\<forall>y \<in> set p1. \<not> fits sz y" "fits sz x"
    using first_fit_split [of pre sz] by blast
  have "alloc_chain (p1 @ x # (p2 @ b # post)) sz =
      (ptr x, p1 @ x\<lparr>free := 0, size_b := sz\<rparr>
                 # make_block (ptr x + sz) (size_b x - sz) 1 # (p2 @ b # post))"
    using split(2,3) by (rule alloc_chain_first_fit)
  then show ?thesis by (simp add: split(1))
qed

subsection \<open>The branches of resize\<close>

text \<open>
  The descriptor that \<open>mem_resize\<close> works on is the first one in the chain with the
  address (\<open>find_block_first\<close>).  When it is large enough the call returns the address and
  changes nothing; when it is too small and no descriptor fits, the call returns \<open>NULL\<close>
  and changes nothing.
\<close>

lemma mem_resize_large_enough:
  "find_block (first_block s) block = Some b \<Longrightarrow> sz \<le> size_b b \<Longrightarrow>
   mem_resize s block sz = Inr (block, s)"
  by (simp add: mem_resize_def)

lemma mem_resize_exhausted:
  "find_block (first_block s) block = Some b \<Longrightarrow> size_b b < sz \<Longrightarrow>
   \<forall>x \<in> set (first_block s). \<not> fits sz x \<Longrightarrow>
   mem_resize s block sz = Inr (NULL, s)"
  by (simp add: mem_resize_def no_lock_alloc_def alloc_chain_no_fit)

lemma memcpy_nothing: "memcpy m dst src 0 = m"
  by (rule ext) (auto simp: memcpy_def)

lemma memcpy_constant: "memcpy (\<lambda>_. c) dst src n = (\<lambda>_. c)"
  by (rule ext) (simp add: memcpy_def)

subsection \<open>Walking the list\<close>

lemma node_chain_not_null: "node_chain h p as \<Longrightarrow> a \<in> set as \<Longrightarrow> a \<noteq> NULL"
  by (induction as arbitrary: p) auto

lemma search_loop_node_chain:
  "node_chain h p as \<Longrightarrow>
   search_loop h p d =
     Some (case find (\<lambda>a. data (h a) = d) as of Some a \<Rightarrow> a | None \<Rightarrow> NULL)"
proof (induction as arbitrary: p)
  case Nil
  then show ?case by (subst search_loop.simps) simp
next
  case (Cons a as)
  then show ?case by (subst search_loop.simps) simp
qed

lemma find_in_set: "find P xs = Some x \<Longrightarrow> x \<in> set xs"
  by (induction xs) (auto split: if_splits)

lemma list_insert_exhausted:
  "fst (mem_alloc (pool_state s) node_size) = NULL \<Longrightarrow>
   list_insert node_size s d = Some (Inl NullDereference)"
  by (cases "mem_alloc (pool_state s) node_size") (simp add: list_insert_def)

section \<open>The claims on the allocator\<close>

text \<open>
  C1, as the code has it.  After \<open>mem_init\<close> with a pool of \<open>sz\<close> bytes at \<open>base\<close>
  and any sequence of \<open>mem_alloc\<close> and \<open>mem_free\<close> calls, the sizes of the descriptors
  in the chain add up to \<open>sz\<close>, every descriptor starts where the one before it ends
  (the first at \<open>base\<close>), the byte range of a descriptor ends before any later descriptor
  starts, and no two descriptors that cover at least one byte have the same address.
\<close>

theorem chain_invariant:
  "total_size (first_block (run (mem_init base m sz) cs)) = sz \<and>
   contiguous base (first_block (run (mem_init base m sz) cs)) \<and>
   non_overlapping (first_block (run (mem_init base m sz) cs)) \<and>
   distinct (map ptr (nonempty_blocks (first_block (run (mem_init base m sz) cs))))"
proof -
  have ok: "chain_ok base sz (first_block (run (mem_init base m sz) cs))"
    by (rule chain_ok_run [OF chain_ok_mem_init])
  then have c: "contiguous base (first_block (run (mem_init base m sz) cs))"
    by (simp add: chain_ok_def)
  from ok c show ?thesis
    by (simp add: chain_ok_def contiguous_non_overlapping non_overlapping_distinct)
qed

theorem chain_invariant_witness:
  "first_block (run (mem_init 100 (\<lambda>_. 0) 16) [Alloc 8, Alloc 8, Free 100, Alloc 8]) =
     [\<lparr>ptr = 100, size_b = 8, free = 0\<rparr>, \<lparr>ptr = 108, size_b = 0, free = 1\<rparr>,
      \<lparr>ptr = 108, size_b = 8, free = 0\<rparr>, \<lparr>ptr = 116, size_b = 0, free = 1\<rparr>] \<and>
   total_size (first_block
     (run (mem_init 100 (\<lambda>_. 0) 16) [Alloc 8, Alloc 8, Free 100, Alloc 8])) = 16 \<and>
   contiguous 100 (first_block
     (run (mem_init 100 (\<lambda>_. 0) 16) [Alloc 8, Alloc 8, Free 100, Alloc 8])) \<and>
   non_overlapping (first_block
     (run (mem_init 100 (\<lambda>_. 0) 16) [Alloc 8, Alloc 8, Free 100, Alloc 8])) \<and>
   distinct (map ptr (nonempty_blocks (first_block
     (run (mem_init 100 (\<lambda>_. 0) 16) [Alloc 8, Alloc 8, Free 100, Alloc 8]))))"
proof -
  have "first_block (run (mem_init 100 (\<lambda>_. 0) 16) [Alloc 8, Alloc 8, Free 100, Alloc 8]) =
     [\<lparr>ptr = 100, size_b = 8, free = 0\<rparr>, \<lparr>ptr = 108, size_b = 0, free = 1\<rparr>,
      \<lparr>ptr = 108, size_b = 8, free = 0\<rparr>, \<lparr>ptr = 116, size_b = 0, free = 1\<rparr>]"
    by (simp add: run_def mem_init_def mem_alloc_def mem_free_def no_lock_alloc_def
          no_lock_free_def make_block_def)
  with chain_invariant [of 100 "\<lambda>_. 0" 16 "[Alloc 8, Alloc 8, Free 100, Alloc 8]"]
  show ?thesis by blast
qed

text \<open>
  C1 as stated also has that no two descriptors point to the same address.  An allocation
  that takes the whole of a free descriptor leaves a descriptor of size 0 at the address
  of the one after it: \<open>mem_init(16)\<close>, two \<open>mem_alloc(8)\<close>, \<open>mem_free\<close> of the first
  block and \<open>mem_alloc(8)\<close> again give two descriptors at offset 8.
\<close>

theorem shared_address_counterexample:
  "\<not> distinct (map ptr (first_block
       (run (mem_init 100 (\<lambda>_. 0) 16) [Alloc 8, Alloc 8, Free 100, Alloc 8])))"
  by (simp add: run_def mem_init_def mem_alloc_def mem_free_def no_lock_alloc_def
        no_lock_free_def make_block_def)

text \<open>
  C2.  \<open>mem_alloc\<close> takes the first descriptor in chain order that is free and at least
  as large as the request: it marks it used, cuts its size to the request, puts a new free
  descriptor for the bytes left over between it and its old successor, and returns its
  address.  When no descriptor is free and large enough it returns \<open>NULL\<close>, the
  source's result for an exhausted pool, and changes nothing.
\<close>

theorem mem_alloc_first_fit:
  "(first_block s = pre @ b # post \<and> (\<forall>x \<in> set pre. \<not> fits sz x) \<and> fits sz b \<longrightarrow>
      mem_alloc s sz =
        (ptr b,
         s\<lparr>first_block :=
             pre @ [b\<lparr>free := 0, size_b := sz\<rparr>,
                    \<lparr>ptr = ptr b + sz, size_b = size_b b - sz, free = 1\<rparr>] @ post\<rparr>)) \<and>
   ((\<forall>x \<in> set (first_block s). \<not> fits sz x) \<longrightarrow> mem_alloc s sz = (NULL, s))"
  by (simp add: mem_alloc_def no_lock_alloc_def alloc_chain_first_fit alloc_chain_no_fit
        make_block_def)

theorem mem_alloc_first_fit_witness:
  "first_block (mem_init 100 (\<lambda>_. 0) 64) = [] @ make_block 100 64 1 # [] \<and>
   fits 16 (make_block 100 64 1) \<and>
   mem_alloc (mem_init 100 (\<lambda>_. 0) 64) 16 =
     (100, \<lparr>memory_pool = 100,
            first_block = [\<lparr>ptr = 100, size_b = 16, free = 0\<rparr>,
                           \<lparr>ptr = 116, size_b = 48, free = 1\<rparr>],
            bytes = (\<lambda>_. 0)\<rparr>) \<and>
   \<not> (\<exists>x \<in> set (first_block (mem_init 100 (\<lambda>_. 0) 64)). fits 65 x) \<and>
   mem_alloc (mem_init 100 (\<lambda>_. 0) 64) 65 = (NULL, mem_init 100 (\<lambda>_. 0) 64)"
  using mem_alloc_first_fit [of "mem_init 100 (\<lambda>_. 0) 64" "[]" "make_block 100 64 1" "[]" 16]
    mem_alloc_first_fit [of "mem_init 100 (\<lambda>_. 0) 64" "[]" "make_block 100 64 1" "[]" 65]
  by (simp add: mem_init_def make_block_def fits_def)

text \<open>
  C10.  A call of \<open>mem_alloc\<close> that finds a descriptor puts exactly one new free
  descriptor right after it, of the old size less the request, so the chain is one
  descriptor longer; when the request is the whole of the descriptor found, the new
  descriptor has size 0 and stays in the chain.
\<close>

theorem mem_alloc_inserts_one_descriptor:
  assumes "\<exists>x \<in> set (first_block s). fits sz x"
  shows "\<exists>pre b post.
           first_block s = pre @ b # post \<and> (\<forall>x \<in> set pre. \<not> fits sz x) \<and> fits sz b \<and>
           fst (mem_alloc s sz) = ptr b \<and>
           first_block (snd (mem_alloc s sz)) =
             pre @ [b\<lparr>free := 0, size_b := sz\<rparr>,
                    \<lparr>ptr = ptr b + sz, size_b = size_b b - sz, free = 1\<rparr>] @ post \<and>
           length (first_block (snd (mem_alloc s sz))) = length (first_block s) + 1 \<and>
           (size_b b = sz \<longrightarrow>
              first_block (snd (mem_alloc s sz)) ! (length pre + 1) =
                \<lparr>ptr = ptr b + sz, size_b = 0, free = 1\<rparr>)"
proof -
  from first_fit_split [OF assms] obtain pre b post where
    split: "first_block s = pre @ b # post" "\<forall>x \<in> set pre. \<not> fits sz x" "fits sz b"
    by blast
  have chain: "first_block (snd (mem_alloc s sz)) =
      pre @ [b\<lparr>free := 0, size_b := sz\<rparr>,
             \<lparr>ptr = ptr b + sz, size_b = size_b b - sz, free = 1\<rparr>] @ post"
    and res: "fst (mem_alloc s sz) = ptr b"
    using split
    by (simp_all add: mem_alloc_def no_lock_alloc_def alloc_chain_first_fit make_block_def)
  have len: "length (first_block (snd (mem_alloc s sz))) = length (first_block s) + 1"
    by (simp add: chain split(1))
  have zero: "size_b b = sz \<longrightarrow>
      first_block (snd (mem_alloc s sz)) ! (length pre + 1) =
        \<lparr>ptr = ptr b + sz, size_b = 0, free = 1\<rparr>"
    by (simp add: chain nth_append)
  from split chain res len zero show ?thesis by blast
qed

theorem mem_alloc_inserts_one_descriptor_witness:
  "(\<exists>x \<in> set (first_block (mem_init 100 (\<lambda>_. 0) 64)). fits 64 x) \<and>
   first_block (snd (mem_alloc (mem_init 100 (\<lambda>_. 0) 64) 64)) =
     [\<lparr>ptr = 100, size_b = 64, free = 0\<rparr>, \<lparr>ptr = 164, size_b = 0, free = 1\<rparr>] \<and>
   (\<exists>pre b post.
      first_block (mem_init 100 (\<lambda>_. 0) 64) = pre @ b # post \<and>
      (\<forall>x \<in> set pre. \<not> fits 64 x) \<and> fits 64 b \<and>
      fst (mem_alloc (mem_init 100 (\<lambda>_. 0) 64) 64) = ptr b \<and>
      first_block (snd (mem_alloc (mem_init 100 (\<lambda>_. 0) 64) 64)) =
        pre @ [b\<lparr>free := 0, size_b := 64\<rparr>,
               \<lparr>ptr = ptr b + 64, size_b = size_b b - 64, free = 1\<rparr>] @ post \<and>
      length (first_block (snd (mem_alloc (mem_init 100 (\<lambda>_. 0) 64) 64))) =
        length (first_block (mem_init 100 (\<lambda>_. 0) 64)) + 1 \<and>
      (size_b b = 64 \<longrightarrow>
         first_block (snd (mem_alloc (mem_init 100 (\<lambda>_. 0) 64) 64)) ! (length pre + 1) =
           \<lparr>ptr = ptr b + 64, size_b = 0, free = 1\<rparr>))"
proof -
  have h: "\<exists>x \<in> set (first_block (mem_init 100 (\<lambda>_. 0) 64)). fits 64 x"
    by (simp add: mem_init_def make_block_def fits_def)
  have c: "first_block (snd (mem_alloc (mem_init 100 (\<lambda>_. 0) 64) 64)) =
     [\<lparr>ptr = 100, size_b = 64, free = 0\<rparr>, \<lparr>ptr = 164, size_b = 0, free = 1\<rparr>]"
    by (simp add: mem_init_def mem_alloc_def no_lock_alloc_def make_block_def)
  from h c mem_alloc_inserts_one_descriptor [OF h] show ?thesis by blast
qed

text \<open>
  C4, as the code has it.  \<open>mem_free\<close> with an address that no descriptor in the chain
  has returns nothing and leaves the pool as it was.
\<close>

theorem mem_free_absent_silent:
  "block \<notin> ptr ` set (first_block s) \<Longrightarrow> mem_free s block = s"
  by (simp add: mem_free_def no_lock_free_def free_chain_absent)

theorem mem_free_absent_silent_witness:
  "1000 \<notin> ptr ` set (first_block (mem_init 100 (\<lambda>_. 0) 64)) \<and>
   mem_free (mem_init 100 (\<lambda>_. 0) 64) 1000 = mem_init 100 (\<lambda>_. 0) 64"
proof -
  have h: "1000 \<notin> ptr ` set (first_block (mem_init 100 (\<lambda>_. 0) 64))"
    by (simp add: mem_init_def make_block_def)
  from h mem_free_absent_silent [OF h] show ?thesis by simp
qed

text \<open>
  C4 as stated has the call report an error.  \<open>mem_free\<close> is a \<open>void\<close> function that
  prints nothing: the state after the call is all it gives back, and for an address that
  is not in the chain that state is the same as for one that is (here the address of a
  descriptor that is free already).  Nothing in the outcome tells the two apart.
\<close>

theorem mem_free_no_report_counterexample:
  "1000 \<notin> ptr ` set (first_block (mem_init 100 (\<lambda>_. 0) 64)) \<and>
   100 \<in> ptr ` set (first_block (mem_init 100 (\<lambda>_. 0) 64)) \<and>
   mem_free (mem_init 100 (\<lambda>_. 0) 64) 1000 = mem_free (mem_init 100 (\<lambda>_. 0) 64) 100"
  by (simp add: mem_init_def make_block_def mem_free_def no_lock_free_def)

text \<open>
  C5, as the code has it.  Let \<open>a\<close> and \<open>b\<close> be adjacent in the chain, \<open>a\<close> first, each
  the first descriptor with its address.  After \<open>mem_free\<close> of \<open>b\<close> and then of \<open>a\<close>
  the two are one free descriptor at the address of \<open>a\<close>; its size is the sum of their
  sizes, plus the size of the descriptor behind \<open>b\<close> when that one was free.  A
  \<open>mem_alloc\<close> of exactly this size finds a descriptor.  When no earlier descriptor is
  free and large enough it takes the merged one whole and returns the address of \<open>a\<close>;
  otherwise it takes the first earlier descriptor \<open>x\<close> that is free and large enough,
  splits it and returns the address of \<open>x\<close>.
\<close>

theorem free_upper_then_lower_merges:
  assumes chain: "first_block s = pre @ a # b # post"
    and first_a: "\<forall>x \<in> set pre. ptr x \<noteq> ptr a"
    and first_b: "\<forall>x \<in> set pre. ptr x \<noteq> ptr b"
    and neq: "ptr a \<noteq> ptr b"
    and merged: "merged = size_b a + size_b b + succ_free_size post"
    and s2: "s2 = mem_free (mem_free s (ptr b)) (ptr a)"
  shows "first_block s2 = pre @ a\<lparr>free := 1, size_b := merged\<rparr> # after_merge post \<and>
         (\<exists>x \<in> set (first_block s2). fits merged x) \<and>
         fst (mem_alloc s2 merged) \<in> ptr ` set (pre @ [a]) \<and>
         ((\<forall>x \<in> set pre. \<not> fits merged x) \<longrightarrow>
            mem_alloc s2 merged =
              (ptr a,
               s2\<lparr>first_block :=
                    pre @ [a\<lparr>free := 0, size_b := merged\<rparr>,
                           \<lparr>ptr = ptr a + merged, size_b = 0, free = 1\<rparr>] @ after_merge post\<rparr>)) \<and>
         (\<forall>p1 x p2.
            pre = p1 @ x # p2 \<and> (\<forall>y \<in> set p1. \<not> fits merged y) \<and> fits merged x \<longrightarrow>
            mem_alloc s2 merged =
              (ptr x,
               s2\<lparr>first_block :=
                    p1 @ [x\<lparr>free := 0, size_b := merged\<rparr>,
                          \<lparr>ptr = ptr x + merged, size_b = size_b x - merged, free = 1\<rparr>]
                       @ p2 @ a\<lparr>free := 1, size_b := merged\<rparr> # after_merge post\<rparr>))"
proof -
  let ?b' = "b\<lparr>free := 1, size_b := size_b b + succ_free_size post\<rparr>"
  let ?a' = "a\<lparr>free := 1, size_b := merged\<rparr>"
  have "free_chain ((pre @ [a]) @ b # post) (ptr b) = (pre @ [a]) @ ?b' # after_merge post"
    using first_b neq by (intro free_chain_hit) auto
  then have step1: "first_block (mem_free s (ptr b)) = pre @ a # ?b' # after_merge post"
    by (simp add: mem_free_def no_lock_free_def chain)
  have fc2: "free_chain (pre @ a # ?b' # after_merge post) (ptr a) =
      pre @ a\<lparr>free := 1, size_b := size_b a + succ_free_size (?b' # after_merge post)\<rparr>
        # after_merge (?b' # after_merge post)"
    using first_a by (intro free_chain_hit) auto
  have absorbed: "size_b a + succ_free_size (?b' # after_merge post) = merged"
    by (simp add: succ_free_size_def merged)
  have rest: "after_merge (?b' # after_merge post) = after_merge post"
    by (simp add: after_merge_def)
  have "first_block s2 = free_chain (first_block (mem_free s (ptr b))) (ptr a)"
    by (simp add: s2 mem_free_def no_lock_free_def)
  also have "\<dots> = free_chain (pre @ a # ?b' # after_merge post) (ptr a)"
    by (simp only: step1)
  also have "\<dots> =
      pre @ a\<lparr>free := 1, size_b := size_b a + succ_free_size (?b' # after_merge post)\<rparr>
        # after_merge (?b' # after_merge post)"
    by (rule fc2)
  also have "\<dots> = pre @ ?a' # after_merge post"
    by (simp only: absorbed rest)
  finally have step2: "first_block s2 = pre @ ?a' # after_merge post" .
  have fit: "fits merged ?a'"
    by (simp add: fits_def)
  have ex: "\<exists>x \<in> set (first_block s2). fits merged x"
    using fit by (auto simp: step2)
  have res: "fst (mem_alloc s2 merged) \<in> ptr ` set (pre @ [a])"
    using alloc_chain_result_in_prefix [OF fit, of pre "after_merge post"]
    by (simp add: mem_alloc_def no_lock_alloc_def step2)
  have exact: "(\<forall>x \<in> set pre. \<not> fits merged x) \<longrightarrow>
      mem_alloc s2 merged =
        (ptr a,
         s2\<lparr>first_block :=
              pre @ [a\<lparr>free := 0, size_b := merged\<rparr>,
                     \<lparr>ptr = ptr a + merged, size_b = 0, free = 1\<rparr>] @ after_merge post\<rparr>)"
    using fit
    by (simp add: mem_alloc_def no_lock_alloc_def step2 alloc_chain_first_fit make_block_def)
  have earlier: "\<forall>p1 x p2.
      pre = p1 @ x # p2 \<and> (\<forall>y \<in> set p1. \<not> fits merged y) \<and> fits merged x \<longrightarrow>
      mem_alloc s2 merged =
        (ptr x,
         s2\<lparr>first_block :=
              p1 @ [x\<lparr>free := 0, size_b := merged\<rparr>,
                    \<lparr>ptr = ptr x + merged, size_b = size_b x - merged, free = 1\<rparr>]
                 @ p2 @ ?a' # after_merge post\<rparr>)"
  proof (intro allI impI)
    fix p1 x p2
    assume h: "pre = p1 @ x # p2 \<and> (\<forall>y \<in> set p1. \<not> fits merged y) \<and> fits merged x"
    then have "alloc_chain (p1 @ x # (p2 @ ?a' # after_merge post)) merged =
        (ptr x, p1 @ x\<lparr>free := 0, size_b := merged\<rparr>
                   # make_block (ptr x + merged) (size_b x - merged) 1
                   # (p2 @ ?a' # after_merge post))"
      by (intro alloc_chain_first_fit) auto
    with h show "mem_alloc s2 merged =
        (ptr x,
         s2\<lparr>first_block :=
              p1 @ [x\<lparr>free := 0, size_b := merged\<rparr>,
                    \<lparr>ptr = ptr x + merged, size_b = size_b x - merged, free = 1\<rparr>]
                 @ p2 @ ?a' # after_merge post\<rparr>)"
      by (simp add: mem_alloc_def no_lock_alloc_def step2 make_block_def)
  qed
  from step2 ex res exact earlier show ?thesis by blast
qed

theorem free_upper_then_lower_merges_witness:
  "first_block (run (mem_init 100 (\<lambda>_. 0) 48) [Alloc 16, Alloc 16, Alloc 16]) =
     [] @ \<lparr>ptr = 100, size_b = 16, free = 0\<rparr> # \<lparr>ptr = 116, size_b = 16, free = 0\<rparr>
        # [\<lparr>ptr = 132, size_b = 16, free = 0\<rparr>, \<lparr>ptr = 148, size_b = 0, free = 1\<rparr>] \<and>
   first_block
     (run (mem_init 100 (\<lambda>_. 0) 48) [Alloc 16, Alloc 16, Alloc 16, Free 116, Free 100]) =
     [\<lparr>ptr = 100, size_b = 32, free = 1\<rparr>,
      \<lparr>ptr = 132, size_b = 16, free = 0\<rparr>, \<lparr>ptr = 148, size_b = 0, free = 1\<rparr>] \<and>
   mem_alloc
     (run (mem_init 100 (\<lambda>_. 0) 48) [Alloc 16, Alloc 16, Alloc 16, Free 116, Free 100]) 32 =
     (100,
      \<lparr>memory_pool = 100,
       first_block =
         [\<lparr>ptr = 100, size_b = 32, free = 0\<rparr>, \<lparr>ptr = 132, size_b = 0, free = 1\<rparr>,
          \<lparr>ptr = 132, size_b = 16, free = 0\<rparr>, \<lparr>ptr = 148, size_b = 0, free = 1\<rparr>],
       bytes = (\<lambda>_. 0)\<rparr>) \<and>
   first_block (run (mem_init 100 (\<lambda>_. 0) 80) [Alloc 32, Alloc 16, Alloc 16, Free 100]) =
     [\<lparr>ptr = 100, size_b = 32, free = 1\<rparr>]
       @ \<lparr>ptr = 132, size_b = 16, free = 0\<rparr> # \<lparr>ptr = 148, size_b = 16, free = 0\<rparr>
       # [\<lparr>ptr = 164, size_b = 16, free = 1\<rparr>] \<and>
   first_block
     (run (mem_init 100 (\<lambda>_. 0) 80) [Alloc 32, Alloc 16, Alloc 16, Free 100, Free 148, Free 132]) =
     [\<lparr>ptr = 100, size_b = 32, free = 1\<rparr>, \<lparr>ptr = 132, size_b = 48, free = 1\<rparr>] \<and>
   mem_alloc
     (run (mem_init 100 (\<lambda>_. 0) 80)
        [Alloc 32, Alloc 16, Alloc 16, Free 100, Free 148, Free 132]) 48 =
     (132,
      \<lparr>memory_pool = 100,
       first_block =
         [\<lparr>ptr = 100, size_b = 32, free = 1\<rparr>, \<lparr>ptr = 132, size_b = 48, free = 0\<rparr>,
          \<lparr>ptr = 180, size_b = 0, free = 1\<rparr>],
       bytes = (\<lambda>_. 0)\<rparr>) \<and>
   first_block (run (mem_init 100 (\<lambda>_. 0) 112) [Alloc 64, Alloc 16, Alloc 16, Free 100]) =
     [\<lparr>ptr = 100, size_b = 64, free = 1\<rparr>]
       @ \<lparr>ptr = 164, size_b = 16, free = 0\<rparr> # \<lparr>ptr = 180, size_b = 16, free = 0\<rparr>
       # [\<lparr>ptr = 196, size_b = 16, free = 1\<rparr>] \<and>
   first_block
     (run (mem_init 100 (\<lambda>_. 0) 112)
        [Alloc 64, Alloc 16, Alloc 16, Free 100, Free 180, Free 164]) =
     [\<lparr>ptr = 100, size_b = 64, free = 1\<rparr>, \<lparr>ptr = 164, size_b = 48, free = 1\<rparr>] \<and>
   mem_alloc
     (run (mem_init 100 (\<lambda>_. 0) 112)
        [Alloc 64, Alloc 16, Alloc 16, Free 100, Free 180, Free 164]) 48 =
     (100,
      \<lparr>memory_pool = 100,
       first_block =
         [\<lparr>ptr = 100, size_b = 48, free = 0\<rparr>, \<lparr>ptr = 148, size_b = 16, free = 1\<rparr>,
          \<lparr>ptr = 164, size_b = 48, free = 1\<rparr>],
       bytes = (\<lambda>_. 0)\<rparr>)"
proof -
  let ?m0 = "\<lambda>_::nat. 0::8 word"
  \<comment> \<open>no descriptor ahead, the one behind is used\<close>
  let ?s = "run (mem_init 100 ?m0 48) [Alloc 16, Alloc 16, Alloc 16]"
  let ?s2 = "run (mem_init 100 ?m0 48) [Alloc 16, Alloc 16, Alloc 16, Free 116, Free 100]"
  let ?a = "\<lparr>ptr = 100, size_b = 16, free = 0\<rparr>"
  let ?b = "\<lparr>ptr = 116, size_b = 16, free = 0\<rparr>"
  let ?post = "[\<lparr>ptr = 132, size_b = 16, free = 0\<rparr>, \<lparr>ptr = 148, size_b = 0, free = 1\<rparr>]"
  have chain: "first_block ?s = [] @ ?a # ?b # ?post"
    by (simp add: run_simps)
  have s2: "?s2 = mem_free (mem_free ?s (ptr ?b)) (ptr ?a)"
    by (simp add: run_def)
  have pool: "memory_pool ?s2 = 100" "bytes ?s2 = ?m0"
    by (simp_all add: run_simps)
  have m: "(32::nat) = size_b ?a + size_b ?b + succ_free_size ?post"
    by (simp add: succ_free_size_def)
  from free_upper_then_lower_merges [OF chain _ _ _ m s2] chain pool
  have one: "first_block ?s = [] @ ?a # ?b # ?post \<and>
      first_block ?s2 =
        [\<lparr>ptr = 100, size_b = 32, free = 1\<rparr>,
         \<lparr>ptr = 132, size_b = 16, free = 0\<rparr>, \<lparr>ptr = 148, size_b = 0, free = 1\<rparr>] \<and>
      mem_alloc ?s2 32 =
        (100,
         \<lparr>memory_pool = 100,
          first_block =
            [\<lparr>ptr = 100, size_b = 32, free = 0\<rparr>, \<lparr>ptr = 132, size_b = 0, free = 1\<rparr>,
             \<lparr>ptr = 132, size_b = 16, free = 0\<rparr>, \<lparr>ptr = 148, size_b = 0, free = 1\<rparr>],
          bytes = ?m0\<rparr>)"
    by (simp add: after_merge_def)
  \<comment> \<open>a free descriptor ahead that is too small, a free one behind\<close>
  let ?t = "run (mem_init 100 ?m0 80) [Alloc 32, Alloc 16, Alloc 16, Free 100]"
  let ?t2 = "run (mem_init 100 ?m0 80) [Alloc 32, Alloc 16, Alloc 16, Free 100, Free 148, Free 132]"
  let ?tpre = "[\<lparr>ptr = 100, size_b = 32, free = 1\<rparr>]"
  let ?ta = "\<lparr>ptr = 132, size_b = 16, free = 0\<rparr>"
  let ?tb = "\<lparr>ptr = 148, size_b = 16, free = 0\<rparr>"
  let ?tpost = "[\<lparr>ptr = 164, size_b = 16, free = 1\<rparr>]"
  have tchain: "first_block ?t = ?tpre @ ?ta # ?tb # ?tpost"
    by (simp add: run_simps)
  have t2: "?t2 = mem_free (mem_free ?t (ptr ?tb)) (ptr ?ta)"
    by (simp add: run_def)
  have tpool: "memory_pool ?t2 = 100" "bytes ?t2 = ?m0"
    by (simp_all add: run_simps)
  have tm: "(48::nat) = size_b ?ta + size_b ?tb + succ_free_size ?tpost"
    by (simp add: succ_free_size_def)
  from free_upper_then_lower_merges [OF tchain _ _ _ tm t2] tchain tpool
  have two: "first_block ?t = ?tpre @ ?ta # ?tb # ?tpost \<and>
      first_block ?t2 =
        [\<lparr>ptr = 100, size_b = 32, free = 1\<rparr>, \<lparr>ptr = 132, size_b = 48, free = 1\<rparr>] \<and>
      mem_alloc ?t2 48 =
        (132,
         \<lparr>memory_pool = 100,
          first_block =
            [\<lparr>ptr = 100, size_b = 32, free = 1\<rparr>, \<lparr>ptr = 132, size_b = 48, free = 0\<rparr>,
             \<lparr>ptr = 180, size_b = 0, free = 1\<rparr>],
          bytes = ?m0\<rparr>)"
    by (simp add: after_merge_def fits_def)
  \<comment> \<open>a free descriptor ahead that is large enough, a free one behind\<close>
  let ?u = "run (mem_init 100 ?m0 112) [Alloc 64, Alloc 16, Alloc 16, Free 100]"
  let ?u2 = "run (mem_init 100 ?m0 112) [Alloc 64, Alloc 16, Alloc 16, Free 100, Free 180, Free 164]"
  let ?ux = "\<lparr>ptr = 100, size_b = 64, free = 1\<rparr>"
  let ?ua = "\<lparr>ptr = 164, size_b = 16, free = 0\<rparr>"
  let ?ub = "\<lparr>ptr = 180, size_b = 16, free = 0\<rparr>"
  let ?upost = "[\<lparr>ptr = 196, size_b = 16, free = 1\<rparr>]"
  have uchain: "first_block ?u = [?ux] @ ?ua # ?ub # ?upost"
    by (simp add: run_simps)
  have ufa: "\<forall>x \<in> set [?ux]. ptr x \<noteq> ptr ?ua" and ufb: "\<forall>x \<in> set [?ux]. ptr x \<noteq> ptr ?ub"
    and uneq: "ptr ?ua \<noteq> ptr ?ub"
    by simp_all
  have u2: "?u2 = mem_free (mem_free ?u (ptr ?ub)) (ptr ?ua)"
    by (simp add: run_def)
  have upool: "memory_pool ?u2 = 100" "bytes ?u2 = ?m0"
    by (simp_all add: run_simps)
  have um: "(48::nat) = size_b ?ua + size_b ?ub + succ_free_size ?upost"
    by (simp add: succ_free_size_def)
  note U = free_upper_then_lower_merges [OF uchain ufa ufb uneq um u2]
  have usplit: "[?ux] = [] @ ?ux # [] \<and> (\<forall>y \<in> set []. \<not> fits 48 y) \<and> fits 48 ?ux"
    by (simp add: fits_def)
  from U have "\<forall>p1 x p2.
      [?ux] = p1 @ x # p2 \<and> (\<forall>y \<in> set p1. \<not> fits 48 y) \<and> fits 48 x \<longrightarrow>
      mem_alloc ?u2 48 =
        (ptr x,
         ?u2\<lparr>first_block :=
              p1 @ [x\<lparr>free := 0, size_b := 48\<rparr>,
                    \<lparr>ptr = ptr x + 48, size_b = size_b x - 48, free = 1\<rparr>]
                 @ p2 @ ?ua\<lparr>free := 1, size_b := 48\<rparr> # after_merge ?upost\<rparr>)"
    by blast
  then have "[?ux] = [] @ ?ux # [] \<and> (\<forall>y \<in> set []. \<not> fits 48 y) \<and> fits 48 ?ux \<longrightarrow>
      mem_alloc ?u2 48 =
        (ptr ?ux,
         ?u2\<lparr>first_block :=
              [] @ [?ux\<lparr>free := 0, size_b := 48\<rparr>,
                    \<lparr>ptr = ptr ?ux + 48, size_b = size_b ?ux - 48, free = 1\<rparr>]
                 @ [] @ ?ua\<lparr>free := 1, size_b := 48\<rparr> # after_merge ?upost\<rparr>)"
    by blast
  with usplit have ualloc: "mem_alloc ?u2 48 =
        (ptr ?ux,
         ?u2\<lparr>first_block :=
              [] @ [?ux\<lparr>free := 0, size_b := 48\<rparr>,
                    \<lparr>ptr = ptr ?ux + 48, size_b = size_b ?ux - 48, free = 1\<rparr>]
                 @ [] @ ?ua\<lparr>free := 1, size_b := 48\<rparr> # after_merge ?upost\<rparr>)"
    by blast
  from U have uchain2: "first_block ?u2 = [?ux] @ ?ua\<lparr>free := 1, size_b := 48\<rparr> # after_merge ?upost"
    by blast
  from ualloc uchain2 uchain upool
  have three: "first_block ?u = [?ux] @ ?ua # ?ub # ?upost \<and>
      first_block ?u2 =
        [\<lparr>ptr = 100, size_b = 64, free = 1\<rparr>, \<lparr>ptr = 164, size_b = 48, free = 1\<rparr>] \<and>
      mem_alloc ?u2 48 =
        (100,
         \<lparr>memory_pool = 100,
          first_block =
            [\<lparr>ptr = 100, size_b = 48, free = 0\<rparr>, \<lparr>ptr = 148, size_b = 16, free = 1\<rparr>,
             \<lparr>ptr = 164, size_b = 48, free = 1\<rparr>],
          bytes = ?m0\<rparr>)"
    by (simp add: after_merge_def)
  from one two three show ?thesis by (simp only: conj_assoc) 
qed

text \<open>
  C5 as stated fails in four ways.  Released in the other order, first the block at 100
  and then the block at 116, the two stay two free descriptors of 16 bytes (the merge of
  \<open>no_lock_free\<close> only looks at the next descriptor) and \<open>mem_alloc(32)\<close> returns
  \<open>NULL\<close>.  With a free descriptor behind the upper block the merged descriptor has 48
  bytes, not 32.  With a free descriptor of 32 bytes ahead of the two in the chain,
  \<open>mem_alloc(32)\<close> returns that one's address, 100, not the lower address 132.  With
  a descriptor of size 0 at the address of the lower block ahead of it, \<open>mem_free\<close> of
  the lower block stops at that descriptor and the block at 116 stays used.
\<close>

theorem free_adjacent_counterexample:
  "first_block (run (mem_init 100 (\<lambda>_. 0) 48) [Alloc 16, Alloc 16, Alloc 16]) =
     [\<lparr>ptr = 100, size_b = 16, free = 0\<rparr>, \<lparr>ptr = 116, size_b = 16, free = 0\<rparr>,
      \<lparr>ptr = 132, size_b = 16, free = 0\<rparr>, \<lparr>ptr = 148, size_b = 0, free = 1\<rparr>] \<and>
   first_block
     (run (mem_init 100 (\<lambda>_. 0) 48) [Alloc 16, Alloc 16, Alloc 16, Free 100, Free 116]) =
     [\<lparr>ptr = 100, size_b = 16, free = 1\<rparr>, \<lparr>ptr = 116, size_b = 16, free = 1\<rparr>,
      \<lparr>ptr = 132, size_b = 16, free = 0\<rparr>, \<lparr>ptr = 148, size_b = 0, free = 1\<rparr>] \<and>
   mem_alloc
     (run (mem_init 100 (\<lambda>_. 0) 48) [Alloc 16, Alloc 16, Alloc 16, Free 100, Free 116]) 32 =
     (NULL, run (mem_init 100 (\<lambda>_. 0) 48) [Alloc 16, Alloc 16, Alloc 16, Free 100, Free 116]) \<and>
   first_block (run (mem_init 100 (\<lambda>_. 0) 48) [Alloc 16, Alloc 16]) =
     [\<lparr>ptr = 100, size_b = 16, free = 0\<rparr>, \<lparr>ptr = 116, size_b = 16, free = 0\<rparr>,
      \<lparr>ptr = 132, size_b = 16, free = 1\<rparr>] \<and>
   first_block (run (mem_init 100 (\<lambda>_. 0) 48) [Alloc 16, Alloc 16, Free 116, Free 100]) =
     [\<lparr>ptr = 100, size_b = 48, free = 1\<rparr>] \<and>
   first_block
     (run (mem_init 100 (\<lambda>_. 0) 80) [Alloc 32, Alloc 16, Alloc 16, Alloc 16, Free 100]) =
     [\<lparr>ptr = 100, size_b = 32, free = 1\<rparr>, \<lparr>ptr = 132, size_b = 16, free = 0\<rparr>,
      \<lparr>ptr = 148, size_b = 16, free = 0\<rparr>, \<lparr>ptr = 164, size_b = 16, free = 0\<rparr>,
      \<lparr>ptr = 180, size_b = 0, free = 1\<rparr>] \<and>
   fst (mem_alloc
          (run (mem_init 100 (\<lambda>_. 0) 80)
             [Alloc 32, Alloc 16, Alloc 16, Alloc 16, Free 100, Free 148, Free 132]) 32) = 100 \<and>
   first_block
     (run (mem_init 100 (\<lambda>_. 0) 40) [Alloc 16, Alloc 8, Alloc 8, Free 100, Alloc 16]) =
     [\<lparr>ptr = 100, size_b = 16, free = 0\<rparr>, \<lparr>ptr = 116, size_b = 0, free = 1\<rparr>,
      \<lparr>ptr = 116, size_b = 8, free = 0\<rparr>, \<lparr>ptr = 124, size_b = 8, free = 0\<rparr>,
      \<lparr>ptr = 132, size_b = 8, free = 1\<rparr>] \<and>
   first_block
     (run (mem_init 100 (\<lambda>_. 0) 40)
        [Alloc 16, Alloc 8, Alloc 8, Free 100, Alloc 16, Free 124, Free 116]) =
     [\<lparr>ptr = 100, size_b = 16, free = 0\<rparr>, \<lparr>ptr = 116, size_b = 0, free = 1\<rparr>,
      \<lparr>ptr = 116, size_b = 8, free = 0\<rparr>, \<lparr>ptr = 124, size_b = 16, free = 1\<rparr>]"
  by (simp add: run_simps)

text \<open>
  C6, on the code.  \<open>mem_resize\<close> with an address that no descriptor has: the search
  loop ends with \<open>current_block == NULL\<close> and the next statement reads
  \<open>current_block->size\<close>.  After \<open>mem_init(64)\<close> with the pool at 100,
  \<open>mem_resize(1000, 8)\<close> is a null dereference, not a result.
\<close>

theorem mem_resize_absent_faults:
  "1000 \<notin> ptr ` set (first_block (mem_init 100 (\<lambda>_. 0) 64)) \<and>
   mem_resize (mem_init 100 (\<lambda>_. 0) 64) 1000 8 = Inl NullDereference"
  by (simp add: mem_init_def make_block_def mem_resize_def)

text \<open>
  C7, on the code.  After \<open>mem_init(32)\<close> with the pool at 100, \<open>a = mem_alloc(16)\<close>,
  \<open>b = mem_alloc(8)\<close>, \<open>mem_free(a)\<close> and \<open>mem_alloc(16)\<close>, the block \<open>b\<close> at 116 is
  allocated with 8 bytes, and the exact fit of the last call has left a descriptor of size
  0 at 116 ahead of it.  \<open>mem_resize(b, 4)\<close> finds that descriptor, takes the block for
  too small, and returns the new address 124 with a changed chain, not \<open>b\<close>.
\<close>

theorem mem_resize_shadowed_block:
  "first_block (run (mem_init 100 (\<lambda>_. 0) 32) [Alloc 16, Alloc 8, Free 100, Alloc 16]) =
     [\<lparr>ptr = 100, size_b = 16, free = 0\<rparr>, \<lparr>ptr = 116, size_b = 0, free = 1\<rparr>,
      \<lparr>ptr = 116, size_b = 8, free = 0\<rparr>, \<lparr>ptr = 124, size_b = 8, free = 1\<rparr>] \<and>
   mem_resize (run (mem_init 100 (\<lambda>_. 0) 32) [Alloc 16, Alloc 8, Free 100, Alloc 16]) 116 4 =
     Inr (124,
          \<lparr>memory_pool = 100,
           first_block =
             [\<lparr>ptr = 100, size_b = 16, free = 0\<rparr>, \<lparr>ptr = 116, size_b = 0, free = 1\<rparr>,
              \<lparr>ptr = 116, size_b = 8, free = 0\<rparr>, \<lparr>ptr = 124, size_b = 4, free = 0\<rparr>,
              \<lparr>ptr = 128, size_b = 4, free = 1\<rparr>],
           bytes = (\<lambda>_. 0)\<rparr>)"
  by (simp add: run_simps mem_resize_def memcpy_nothing)

text \<open>
  C8, on the code.  After \<open>mem_init(32)\<close> with the pool at 100, \<open>a = mem_alloc(16)\<close>,
  \<open>b = mem_alloc(8)\<close> and \<open>mem_free(a)\<close>, the block \<open>b\<close> at 116 is allocated with 8
  bytes and the 16 bytes ahead of it are free.  \<open>mem_resize(b, 16)\<close> allocates them, an
  exact fit that leaves a descriptor of size 0 at 116 ahead of \<open>b\<close>; the
  \<open>no_lock_free(b)\<close> that follows stops at that descriptor.  The call returns the new
  address 100, and the descriptor of the old block is still marked used; a
  \<open>mem_free(b)\<close> right after the call changes nothing.
\<close>

theorem mem_resize_old_block_stays_used:
  "first_block (run (mem_init 100 (\<lambda>_. 0) 32) [Alloc 16, Alloc 8, Free 100]) =
     [\<lparr>ptr = 100, size_b = 16, free = 1\<rparr>, \<lparr>ptr = 116, size_b = 8, free = 0\<rparr>,
      \<lparr>ptr = 124, size_b = 8, free = 1\<rparr>] \<and>
   mem_resize (run (mem_init 100 (\<lambda>_. 0) 32) [Alloc 16, Alloc 8, Free 100]) 116 16 =
     Inr (100,
          \<lparr>memory_pool = 100,
           first_block =
             [\<lparr>ptr = 100, size_b = 16, free = 0\<rparr>, \<lparr>ptr = 116, size_b = 0, free = 1\<rparr>,
              \<lparr>ptr = 116, size_b = 8, free = 0\<rparr>, \<lparr>ptr = 124, size_b = 8, free = 1\<rparr>],
           bytes = (\<lambda>_. 0)\<rparr>) \<and>
   mem_free
     \<lparr>memory_pool = 100,
      first_block =
        [\<lparr>ptr = 100, size_b = 16, free = 0\<rparr>, \<lparr>ptr = 116, size_b = 0, free = 1\<rparr>,
         \<lparr>ptr = 116, size_b = 8, free = 0\<rparr>, \<lparr>ptr = 124, size_b = 8, free = 1\<rparr>],
      bytes = (\<lambda>_. 0)\<rparr> 116 =
     \<lparr>memory_pool = 100,
      first_block =
        [\<lparr>ptr = 100, size_b = 16, free = 0\<rparr>, \<lparr>ptr = 116, size_b = 0, free = 1\<rparr>,
         \<lparr>ptr = 116, size_b = 8, free = 0\<rparr>, \<lparr>ptr = 124, size_b = 8, free = 1\<rparr>],
      bytes = (\<lambda>_. 0)\<rparr>"
  by (simp add: run_simps mem_resize_def memcpy_constant)

section \<open>The claims on the list\<close>

text \<open>
  C3, on the code.  \<open>list_init\<close> with a pool of 64 bytes at 100 and \<open>sizeof(Node)\<close> 16:
  four calls of \<open>list_insert\<close> use up the pool, and the fifth gets \<open>NULL\<close> from
  \<open>mem_alloc\<close> and writes \<open>node->data\<close> through it.  The call ends in a null
  dereference, not in a result.
\<close>

theorem list_insert_exhausted_faults:
  "(case insert_all 16 (list_init list_startup 100 64) [1, 2, 3, 4] of
      Some (Inr s) \<Rightarrow>
        first_block (pool_state s) =
          [\<lparr>ptr = 100, size_b = 16, free = 0\<rparr>, \<lparr>ptr = 116, size_b = 16, free = 0\<rparr>,
           \<lparr>ptr = 132, size_b = 16, free = 0\<rparr>, \<lparr>ptr = 148, size_b = 16, free = 0\<rparr>,
           \<lparr>ptr = 164, size_b = 0, free = 1\<rparr>] \<and>
        list_insert 16 s 5 = Some (Inl NullDereference)
    | _ \<Rightarrow> False) \<and>
   insert_all 16 (list_init list_startup 100 64) [1, 2, 3, 4, 5] = Some (Inl NullDereference)"
  by (simp add: list_insert_def list_init_def list_startup_def startup_def run_simps
        last_node.simps)

text \<open>
  C9, as the code has it.  On a list whose nodes from \<open>head\<close> on are at the addresses
  \<open>as\<close>, \<open>list_search\<close> returns the first of them whose \<open>data\<close> is the value and
  leaves the state as it was, console included; when none has it, it returns \<open>NULL\<close>
  and the only change is the text \<open>data not in list\<close> at the end of the console.
\<close>

theorem list_search_first_match:
  assumes "node_chain (nodes s) (head s) as"
  shows "list_search s d =
     Some (case find (\<lambda>a. data (nodes s a) = d) as of
             Some a \<Rightarrow> (a, s)
           | None \<Rightarrow> (NULL, s\<lparr>console := console s @ ''data not in list''\<rparr>))"
proof (cases "find (\<lambda>a. data (nodes s a) = d) as")
  case None
  with search_loop_node_chain [OF assms, of d] show ?thesis
    by (simp add: list_search_def)
next
  case (Some a)
  then have "a \<noteq> NULL"
    using node_chain_not_null [OF assms] find_in_set by fastforce
  with Some search_loop_node_chain [OF assms, of d] show ?thesis
    by (simp add: list_search_def)
qed

theorem list_search_first_match_witness:
  "(case insert_all 16 (list_init list_startup 100 64) [1, 2] of
      Some (Inr s) \<Rightarrow>
        node_chain (nodes s) (head s) [100, 116] \<and>
        list_search s 2 = Some (116, s) \<and>
        list_search s 7 = Some (NULL, s\<lparr>console := ''data not in list''\<rparr>)
    | _ \<Rightarrow> False)"
proof -
  obtain s where ins: "insert_all 16 (list_init list_startup 100 64) [1, 2] = Some (Inr s)"
    and hd: "head s = 100" and con: "console s = []"
    and n1: "nodes s 100 = \<lparr>data = 1, next = 116\<rparr>"
    and n2: "nodes s 116 = \<lparr>data = 2, next = NULL\<rparr>"
    by (simp add: list_insert_def list_init_def list_startup_def startup_def run_simps
          last_node.simps)
  have h: "node_chain (nodes s) (head s) [100, 116]"
    by (simp add: hd n1 n2)
  from h list_search_first_match [OF h, of 2] list_search_first_match [OF h, of 7]
  have "node_chain (nodes s) (head s) [100, 116] \<and>
        list_search s 2 = Some (116, s) \<and>
        list_search s 7 = Some (NULL, s\<lparr>console := ''data not in list''\<rparr>)"
    by (simp add: n1 n2 con)
  then show ?thesis unfolding ins by simp
qed

text \<open>
  C9 as stated has no console output.  On the empty list after \<open>list_init\<close> a search
  returns \<open>NULL\<close> and has printed \<open>data not in list\<close>.
\<close>

theorem list_search_prints_counterexample:
  "list_search (list_init list_startup 100 64) 7 =
     Some (NULL, (list_init list_startup 100 64)\<lparr>console := ''data not in list''\<rparr>) \<and>
   list_search (list_init list_startup 100 64) 7 \<noteq> Some (NULL, list_init list_startup 100 64)"
  by (simp add: list_search_def list_init_def list_startup_def search_loop.simps)

end
